theory Spec2Isabelle
  imports Complex_Main "HOL-Library.AList" "HOL-Library.Multiset"
begin

section \<open>The turn-resolution engine of \<open>geopolitical_sim.py\<close>\<close>

text \<open>
  The model covers the methods of the class \<open>Country\<close> and, of the class \<open>World\<close>,
  the constructor and \<open>resolve_trade\<close>. \<open>World.update\<close>, which calls these in
  sequence, and the class \<open>Game\<close>, which draws the map and reads the keyboard, are not
  modelled.

  Python's \<open>float\<close> is modelled by \<^typ>\<open>real\<close>. The methods of \<open>Country\<close> are
  modelled with exact arithmetic. Trade clearing is modelled twice: with exact
  arithmetic (\<open>resolve_trade\<close>), and with a rounding function applied to every
  literal and to the result of every arithmetic operation (\<open>resolve_trade_fp\<close>). With
  the rounding \<open>round_double\<close>, to the nearest double with ties to even, the second is
  the program as Python runs it on finite doubles; with no rounding it is the first.
  Infinities, NaN and overflow are not modelled. A \<open>dict\<close> with string keys is an
  association list in insertion order (Python dictionaries keep it), read with
  \<^const>\<open>map_of\<close> and written with \<^const>\<open>AList.update\<close>; a \<open>set\<close> of names is a
  \<^typ>\<open>string set\<close>. Mutation in place is explicit state passing: a method takes the
  object and returns the updated object, and the world's objects are addressed by their
  position in \<open>World.countries\<close>. The entries of that list are taken to be different
  objects, each with a dictionary of its own, as the constructor's default and the
  \<open>copy()\<close> in \<open>Game._create_world\<close> provide.
\<close>

subsection \<open>Country\<close>

record Country =
  name :: string
  polygon :: "(int \<times> int) list"
  color :: "int \<times> int \<times> int"
  resources :: "(string \<times> real) list"
  gdp :: real
  growth_rate :: real
  population :: real
  tax_rate :: real
  tariff_rate :: real
  sanctions :: "string set"
  new_sanctions :: "string set"

text \<open>The constructor the dataclass generates, with the defaults of the field list.\<close>

definition Country_init :: "string \<Rightarrow> (int \<times> int) list \<Rightarrow> int \<times> int \<times> int \<Rightarrow> Country" where
  "Country_init n poly col =
     \<lparr>name = n, polygon = poly, color = col,
      resources = [(''oil'', 0.0), (''minerals'', 0.0), (''agriculture'', 0.0)],
      gdp = 100.0, growth_rate = 0.02, population = 10.0, tax_rate = 0.2,
      tariff_rate = 0.1, sanctions = {}, new_sanctions = {}\<rparr>"

text \<open>
  \<open>update_economy\<close>: the draw \<open>random.uniform(-0.01, 0.01)\<close> is the parameter
  \<open>fluctuation\<close>.
\<close>

definition update_economy :: "real \<Rightarrow> Country \<Rightarrow> Country" where
  "update_economy fluctuation self =
     (let tax_penalty = tax_rate self * 0.5;
          effective_growth = max (growth_rate self - tax_penalty) (- 0.05);
          delta = gdp self * (effective_growth + fluctuation)
      in self\<lparr>gdp := max (gdp self + delta) 0.0\<rparr>)"

text \<open>
  \<open>produce_resources\<close>: the loop visits every key of the dictionary once and rewrites
  the value stored under it; the keys and their order stay.
\<close>

definition produce_resources :: "Country \<Rightarrow> Country" where
  "produce_resources self =
     self\<lparr>resources :=
       map (\<lambda>(key, v).
              let base_production = population self * 0.1;
                  reserve_bonus = v * 0.02
              in (key, v + (base_production + reserve_bonus)))
           (resources self)\<rparr>"

text \<open>
  \<open>apply_policy\<close>: the policy is a string, the target an optional country of which
  only the name is read. The chain of \<open>if\<close>/\<open>elif\<close> has no final \<open>else\<close>.
\<close>

definition apply_policy :: "string \<Rightarrow> Country option \<Rightarrow> Country \<Rightarrow> Country" where
  "apply_policy policy target self =
     (if policy = ''lower_taxes'' then self\<lparr>tax_rate := max (tax_rate self - 0.02) 0.0\<rparr>
      else if policy = ''raise_taxes'' then self\<lparr>tax_rate := min (tax_rate self + 0.02) 0.5\<rparr>
      else if policy = ''lower_tariffs'' then
        self\<lparr>tariff_rate := max (tariff_rate self - 0.05) 0.0\<rparr>
      else if policy = ''raise_tariffs'' then
        self\<lparr>tariff_rate := min (tariff_rate self + 0.05) 1.0\<rparr>
      else if policy = ''invest_in_infrastructure'' then
        (let can_invest = list_all (\<lambda>v. v \<ge> 10) (map snd (resources self))
         in if can_invest
            then self\<lparr>resources := map (\<lambda>(key, v). (key, v - 10)) (resources self),
                      growth_rate := growth_rate self + 0.005\<rparr>
            else self)
      else if policy = ''sanction'' \<and> target \<noteq> None then
        (case target of
           None \<Rightarrow> self
         | Some t \<Rightarrow>
             if name t \<notin> sanctions self
             then self\<lparr>sanctions := insert (name t) (sanctions self),
                       new_sanctions := insert (name t) (new_sanctions self)\<rparr>
             else self)
      else self)"

definition reset_temp :: "Country \<Rightarrow> Country" where
  "reset_temp self = self\<lparr>new_sanctions := {}\<rparr>"

subsection \<open>World\<close>

record World =
  countries :: "Country list"

text \<open>
  \<open>World\<close> is a dataclass with the single field \<open>countries\<close> and no
  \<open>__post_init__\<close>: the generated constructor stores the list it is given and has no
  path that raises.
\<close>

datatype error = KeyError

definition World_init :: "Country list \<Rightarrow> error + World" where
  "World_init cs = Inr \<lparr>countries = cs\<rparr>"

text \<open>A \<open>for\<close> loop whose body may raise: the first exception ends the loop.\<close>

fun for_each :: "('a \<Rightarrow> 's \<Rightarrow> error + 's) \<Rightarrow> 'a list \<Rightarrow> 's \<Rightarrow> error + 's" where
  "for_each body [] s = Inr s"
| "for_each body (x # xs) s =
     (case body x s of Inl e \<Rightarrow> Inl e | Inr s' \<Rightarrow> for_each body xs s')"

text \<open>
  The first loop of \<open>resolve_trade\<close> for one resource: the dictionaries
  \<open>demands\<close> and \<open>supplies\<close>, keyed by country name, and the two running totals.
\<close>

record Tally =
  demands :: "string \<rightharpoonup> real"
  supplies :: "string \<rightharpoonup> real"
  total_demand :: real
  total_supply :: real

definition tally_country :: "string \<Rightarrow> Country \<Rightarrow> Tally \<Rightarrow> Tally" where
  "tally_country resource c t =
     (let consumption = population c * 0.2;
          available = (case map_of (resources c) resource of Some v \<Rightarrow> v | None \<Rightarrow> 0.0)
      in if available < consumption
         then t\<lparr>demands := (demands t)(name c \<mapsto> consumption - available),
                total_demand := total_demand t + (consumption - available),
                supplies := (supplies t)(name c \<mapsto> 0.0)\<rparr>
         else t\<lparr>supplies := (supplies t)(name c \<mapsto> available - consumption),
                total_supply := total_supply t + (available - consumption),
                demands := (demands t)(name c \<mapsto> 0.0)\<rparr>)"

definition tally :: "string \<Rightarrow> Country list \<Rightarrow> Tally" where
  "tally resource cs =
     fold (tally_country resource) cs
       \<lparr>demands = Map.empty, supplies = Map.empty, total_demand = 0.0, total_supply = 0.0\<rparr>"

text \<open>\<open>d[key] += x\<close> on a dictionary: a missing key raises \<open>KeyError\<close>.\<close>

definition dict_add :: "string \<Rightarrow> real \<Rightarrow> (string \<times> real) list \<Rightarrow> error + (string \<times> real) list" where
  "dict_add key x d =
     (case map_of d key of None \<Rightarrow> Inl KeyError | Some v \<Rightarrow> Inr (AList.update key (v + x) d))"

text \<open>\<open>cs[i].resources[key] += x\<close> on the list of the world's objects.\<close>

definition stock_add :: "string \<Rightarrow> nat \<Rightarrow> real \<Rightarrow> Country list \<Rightarrow> error + Country list" where
  "stock_add key i x cs =
     (case dict_add key x (resources (cs ! i)) of
        Inl e \<Rightarrow> Inl e
      | Inr d \<Rightarrow> Inr (cs[i := (cs ! i)\<lparr>resources := d\<rparr>]))"

text \<open>
  The body of the inner loop, for the importer at position \<open>i\<close> and the exporter at
  position \<open>j\<close>. The exporter's stock is written first, then the importer's.
\<close>

definition trade_pair :: "string \<Rightarrow> Tally \<Rightarrow> real \<Rightarrow> nat \<Rightarrow> nat \<Rightarrow> Country list \<Rightarrow> error + Country list" where
  "trade_pair resource t demand i j cs =
     (let importer = cs ! i; exporter = cs ! j in
      case supplies t (name exporter) of
        None \<Rightarrow> Inl KeyError
      | Some supply \<Rightarrow>
          if supply \<le> 0 then Inr cs
          else if name importer \<in> sanctions exporter \<or> name exporter \<in> sanctions importer
          then Inr cs
          else
            let share = supply / total_supply t;
                volume = share * demand;
                volume_after_tariff = volume * (1.0 - tariff_rate importer)
            in (case stock_add resource j (- volume) cs of
                  Inl e \<Rightarrow> Inl e
                | Inr cs' \<Rightarrow> stock_add resource i volume_after_tariff cs'))"

text \<open>The body of the outer loop, for the importer at position \<open>i\<close>.\<close>

definition trade_importer :: "string \<Rightarrow> Tally \<Rightarrow> nat \<Rightarrow> Country list \<Rightarrow> error + Country list" where
  "trade_importer resource t i cs =
     (case demands t (name (cs ! i)) of
        None \<Rightarrow> Inl KeyError
      | Some demand \<Rightarrow>
          if demand \<le> 0 then Inr cs
          else for_each (trade_pair resource t demand i) [0..<length cs] cs)"

text \<open>The body of the loop over the resource types.\<close>

definition trade_resource :: "string \<Rightarrow> Country list \<Rightarrow> error + Country list" where
  "trade_resource resource cs =
     (let t = tally resource cs in
      if total_supply t \<le> 0 \<or> total_demand t \<le> 0 then Inr cs
      else for_each (trade_importer resource t) [0..<length cs] cs)"

definition resolve_trade :: "World \<Rightarrow> error + World" where
  "resolve_trade w =
     (case countries w of
        [] \<Rightarrow> Inr w
      | c0 # _ \<Rightarrow>
          let resource_types = map fst (resources c0) in
          (case for_each trade_resource resource_types (countries w) of
             Inl e \<Rightarrow> Inl e
           | Inr cs \<Rightarrow> Inr (w\<lparr>countries := cs\<rparr>)))"

text \<open>
  The stock of a resource as trade clearing reads it (\<open>c.resources.get(resource, 0.0)\<close>),
  and its total over the world.
\<close>

definition stock :: "string \<Rightarrow> Country \<Rightarrow> real" where
  "stock resource c = (case map_of (resources c) resource of Some v \<Rightarrow> v | None \<Rightarrow> 0.0)"


subsection \<open>Trade clearing in double precision\<close>

text \<open>
  Rounding to the nearest double, ties to even. A number other than 0 is written as
  \<open>m * 2 ^ e\<close> with \<open>2 ^ 52 \<le> m < 2 ^ 53\<close> (or with \<open>e = -1074\<close> and a smaller \<open>m\<close>,
  for a subnormal result), and \<open>m\<close> is rounded to an integer. Beyond the largest double
  Python gives an infinity or raises; this is not modelled.
\<close>

function scale_down :: "real \<Rightarrow> int \<Rightarrow> real \<times> int" where
  "scale_down m e = (if 2 ^ 53 \<le> m \<and> e < 971 then scale_down (m / 2) (e + 1) else (m, e))"
  by pat_completeness auto
termination
  by (relation "measure (\<lambda>(m, e). nat (971 - e))") auto

function scale_up :: "real \<Rightarrow> int \<Rightarrow> real \<times> int" where
  "scale_up m e = (if m < 2 ^ 52 \<and> - 1074 < e then scale_up (m * 2) (e - 1) else (m, e))"
  by pat_completeness auto
termination
  by (relation "measure (\<lambda>(m, e). nat (e + 1074))") auto

declare scale_down.simps [simp del] scale_up.simps [simp del]

definition round_even :: "real \<Rightarrow> int" where
  "round_even m =
     (let f = \<lfloor>m\<rfloor>; d = m - of_int f
      in if d < 1 / 2 then f else if 1 / 2 < d then f + 1 else if even f then f else f + 1)"

definition pow2 :: "int \<Rightarrow> real" where
  "pow2 e = (if 0 \<le> e then 2 ^ nat e else 1 / 2 ^ nat (- e))"

definition round_double :: "real \<Rightarrow> real" where
  "round_double x =
     (if x = 0 then 0
      else case scale_down \<bar>x\<bar> 0 of (m1, e1) \<Rightarrow>
           case scale_up m1 e1 of (m, e) \<Rightarrow>
             sgn x * of_int (round_even m) * pow2 e)"


definition tally_country_fp :: "(real \<Rightarrow> real) \<Rightarrow> string \<Rightarrow> Country \<Rightarrow> Tally \<Rightarrow> Tally" where
  "tally_country_fp rnd resource c t =
     (let consumption = rnd (population c * rnd 0.2);
          available = (case map_of (resources c) resource of Some v \<Rightarrow> v | None \<Rightarrow> 0.0)
      in if available < consumption
         then t\<lparr>demands := (demands t)(name c \<mapsto> rnd (consumption - available)),
                total_demand := rnd (total_demand t + rnd (consumption - available)),
                supplies := (supplies t)(name c \<mapsto> 0.0)\<rparr>
         else t\<lparr>supplies := (supplies t)(name c \<mapsto> rnd (available - consumption)),
                total_supply := rnd (total_supply t + rnd (available - consumption)),
                demands := (demands t)(name c \<mapsto> 0.0)\<rparr>)"

definition tally_fp :: "(real \<Rightarrow> real) \<Rightarrow> string \<Rightarrow> Country list \<Rightarrow> Tally" where
  "tally_fp rnd resource cs =
     fold (tally_country_fp rnd resource) cs
       \<lparr>demands = Map.empty, supplies = Map.empty, total_demand = 0.0, total_supply = 0.0\<rparr>"

definition dict_add_fp ::
  "(real \<Rightarrow> real) \<Rightarrow> string \<Rightarrow> real \<Rightarrow> (string \<times> real) list \<Rightarrow> error + (string \<times> real) list" where
  "dict_add_fp rnd key x d =
     (case map_of d key of
        None \<Rightarrow> Inl KeyError
      | Some v \<Rightarrow> Inr (AList.update key (rnd (v + x)) d))"

definition stock_add_fp ::
  "(real \<Rightarrow> real) \<Rightarrow> string \<Rightarrow> nat \<Rightarrow> real \<Rightarrow> Country list \<Rightarrow> error + Country list" where
  "stock_add_fp rnd key i x cs =
     (case dict_add_fp rnd key x (resources (cs ! i)) of
        Inl e \<Rightarrow> Inl e
      | Inr d \<Rightarrow> Inr (cs[i := (cs ! i)\<lparr>resources := d\<rparr>]))"

definition trade_pair_fp ::
  "(real \<Rightarrow> real) \<Rightarrow> string \<Rightarrow> Tally \<Rightarrow> real \<Rightarrow> nat \<Rightarrow> nat \<Rightarrow> Country list \<Rightarrow> error + Country list" where
  "trade_pair_fp rnd resource t demand i j cs =
     (let importer = cs ! i; exporter = cs ! j in
      case supplies t (name exporter) of
        None \<Rightarrow> Inl KeyError
      | Some supply \<Rightarrow>
          if supply \<le> 0 then Inr cs
          else if name importer \<in> sanctions exporter \<or> name exporter \<in> sanctions importer
          then Inr cs
          else
            let share = rnd (supply / total_supply t);
                volume = rnd (share * demand);
                volume_after_tariff = rnd (volume * rnd (1.0 - tariff_rate importer))
            in (case stock_add_fp rnd resource j (- volume) cs of
                  Inl e \<Rightarrow> Inl e
                | Inr cs' \<Rightarrow> stock_add_fp rnd resource i volume_after_tariff cs'))"

definition trade_importer_fp ::
  "(real \<Rightarrow> real) \<Rightarrow> string \<Rightarrow> Tally \<Rightarrow> nat \<Rightarrow> Country list \<Rightarrow> error + Country list" where
  "trade_importer_fp rnd resource t i cs =
     (case demands t (name (cs ! i)) of
        None \<Rightarrow> Inl KeyError
      | Some demand \<Rightarrow>
          if demand \<le> 0 then Inr cs
          else for_each (trade_pair_fp rnd resource t demand i) [0..<length cs] cs)"

definition trade_resource_fp :: "(real \<Rightarrow> real) \<Rightarrow> string \<Rightarrow> Country list \<Rightarrow> error + Country list" where
  "trade_resource_fp rnd resource cs =
     (let t = tally_fp rnd resource cs in
      if total_supply t \<le> 0 \<or> total_demand t \<le> 0 then Inr cs
      else for_each (trade_importer_fp rnd resource t) [0..<length cs] cs)"

definition resolve_trade_fp :: "(real \<Rightarrow> real) \<Rightarrow> World \<Rightarrow> error + World" where
  "resolve_trade_fp rnd w =
     (case countries w of
        [] \<Rightarrow> Inr w
      | c0 # _ \<Rightarrow>
          let resource_types = map fst (resources c0) in
          (case for_each (trade_resource_fp rnd) resource_types (countries w) of
             Inl e \<Rightarrow> Inl e
           | Inr cs \<Rightarrow> Inr (w\<lparr>countries := cs\<rparr>)))"

subsection \<open>Concrete worlds\<close>

text \<open>
  \<open>Game._create_world\<close>: the four countries of the game, built by the loop over
  \<open>range(4)\<close>.
\<close>

definition create_country :: "nat \<Rightarrow> Country" where
  "create_country idx =
     \<lparr>name = [''Albia'', ''Borovia'', ''Cyrenia'', ''Demeria''] ! idx,
      polygon = [[(0, 0), (300, 0), (300, 300), (0, 300)],
                 [(300, 0), (600, 0), (600, 300), (300, 300)],
                 [(0, 300), (300, 300), (300, 600), (0, 600)],
                 [(300, 300), (600, 300), (600, 600), (300, 600)]] ! idx,
      color = [(200, 90, 90), (90, 200, 90), (90, 90, 200), (200, 200, 90)] ! idx,
      resources = [[(''oil'', 50.0), (''minerals'', 20.0), (''agriculture'', 10.0)],
                   [(''oil'', 10.0), (''minerals'', 60.0), (''agriculture'', 20.0)],
                   [(''oil'', 20.0), (''minerals'', 10.0), (''agriculture'', 70.0)],
                   [(''oil'', 30.0), (''minerals'', 30.0), (''agriculture'', 30.0)]] ! idx,
      gdp = 100.0 + real idx * 50.0,
      growth_rate = 0.02 + real idx * 0.005,
      population = 8.0 + real idx * 2.0,
      tax_rate = 0.15,
      tariff_rate = 0.1,
      sanctions = {}, new_sanctions = {}\<rparr>"

definition create_world :: "error + World" where
  "create_world = World_init (map create_country [0, 1, 2, 3])"

text \<open>
  The two entities of the end-to-end scenario: \<open>A\<close> holds 100 oil, \<open>B\<close> is built with
  the defaults of the constructor (no oil, population 10, tariff 0.1, no sanctions).
\<close>

definition scenario_A :: Country where
  "scenario_A = (Country_init ''A'' [] (0, 0, 0))
     \<lparr>resources := [(''oil'', 100.0), (''minerals'', 0.0), (''agriculture'', 0.0)]\<rparr>"

definition scenario_B :: Country where
  "scenario_B = Country_init ''B'' [] (0, 0, 0)"

text \<open>
  A world in which the demand exceeds the supply: \<open>A\<close> holds 3 oil and needs 2 of
  them, \<open>B\<close> holds none and needs 20.
\<close>

definition short_A :: Country where
  "short_A = (Country_init ''A'' [] (0, 0, 0))
     \<lparr>resources := [(''oil'', 3.0), (''minerals'', 0.0), (''agriculture'', 0.0)]\<rparr>"

definition short_B :: Country where
  "short_B = (Country_init ''B'' [] (0, 0, 0))\<lparr>population := 100.0\<rparr>"

text \<open>
  A list that breaks each of the three construction invariants: both entries are named
  \<open>A\<close>, the second has no \<open>oil\<close> key, and its population is negative.
\<close>

definition malformed_A :: Country where
  "malformed_A = (Country_init ''A'' [] (0, 0, 0))
     \<lparr>resources := [(''minerals'', 1.0)], population := - 5.0\<rparr>"

text \<open>A second entity named \<open>A\<close>, with the defaults of the constructor.\<close>

definition twin_A :: Country where
  "twin_A = Country_init ''A'' [] (0, 0, 0)"

text \<open>
  \<open>Country(n, [], (0, 0, 0), resources={'oil': oil, 'minerals': 0.0, 'agriculture': 0.0},
  population=pop, tariff_rate=0.0)\<close>, and two worlds of such entities, without
  tariffs and sanctions. Every number that trade clearing reads in them is a double.
\<close>

definition entity :: "string \<Rightarrow> real \<Rightarrow> real \<Rightarrow> Country" where
  "entity n oil pop = (Country_init n [] (0, 0, 0))
     \<lparr>resources := [(''oil'', oil), (''minerals'', 0.0), (''agriculture'', 0.0)],
      population := pop, tariff_rate := 0.0\<rparr>"

definition three_world :: "Country list" where
  "three_world = [entity ''N0'' 1 10, entity ''N1'' 7 10, entity ''N2'' 12 10]"


subsection \<open>Closed forms of trade clearing\<close>

text \<open>
  The definitions of this subsection are not functions of the program: they describe
  what its loops compute with exact arithmetic, and the properties below relate them to
  \<^const>\<open>resolve_trade\<close>.

  \<open>kinds\<close> is the list \<open>resource_types\<close> of \<open>resolve_trade\<close>. In a world with
  \<open>same_kinds\<close> every entity holds a dictionary (no key twice) with the keys of the
  first entity; a \<open>valid_world\<close> has unique entity names as well. These are the
  invariants of a world: unique names, the identical set of resource kinds.
\<close>

definition kinds :: "Country list \<Rightarrow> string list" where
  "kinds cs = (case cs of [] \<Rightarrow> [] | c0 # _ \<Rightarrow> map fst (resources c0))"

definition has_kind :: "string \<Rightarrow> Country list \<Rightarrow> bool" where
  "has_kind r cs = (\<forall>c \<in> set cs. r \<in> fst ` set (resources c))"

definition same_kinds :: "Country list \<Rightarrow> bool" where
  "same_kinds cs =
     (\<forall>c \<in> set cs. distinct (map fst (resources c))
        \<and> set (map fst (resources c)) = set (kinds cs))"

definition valid_world :: "Country list \<Rightarrow> bool" where
  "valid_world cs = (distinct (map name cs) \<and> same_kinds cs)"

text \<open>
  The demand and the supply that the loops read for an entity (the entries of the two
  dictionaries under its name), the sanction test of the inner loop, and the volume that
  the pair of an importer and an exporter ships: the \<open>volume\<close> of the inner loop when
  the pair is executed, 0 when one of the three \<open>continue\<close> statements skips it.
\<close>

definition demand_of :: "Tally \<Rightarrow> Country \<Rightarrow> real" where
  "demand_of t c = (case demands t (name c) of Some d \<Rightarrow> d | None \<Rightarrow> 0)"

definition supply_of :: "Tally \<Rightarrow> Country \<Rightarrow> real" where
  "supply_of t c = (case supplies t (name c) of Some s \<Rightarrow> s | None \<Rightarrow> 0)"

definition blocked :: "Country \<Rightarrow> Country \<Rightarrow> bool" where
  "blocked importer exporter =
     (name importer \<in> sanctions exporter \<or> name exporter \<in> sanctions importer)"

definition pair_volume :: "Tally \<Rightarrow> Country \<Rightarrow> Country \<Rightarrow> real" where
  "pair_volume t importer exporter =
     (if 0 < demand_of t importer \<and> 0 < supply_of t exporter \<and> \<not> blocked importer exporter
      then supply_of t exporter / total_supply t * demand_of t importer
      else 0)"

definition pair_after_tariff :: "Tally \<Rightarrow> Country \<Rightarrow> Country \<Rightarrow> real" where
  "pair_after_tariff t importer exporter =
     pair_volume t importer exporter * (1.0 - tariff_rate importer)"


text \<open>
  The net inflow of a resource to the entity named \<open>n\<close>: what it imports after tariff
  minus what it exports.
\<close>

definition net :: "string \<Rightarrow> Country list \<Rightarrow> string \<Rightarrow> real" where
  "net r cs n =
     (let t = tally r cs in
      if total_supply t \<le> 0 \<or> total_demand t \<le> 0 then 0
      else (\<Sum>importer\<leftarrow>cs. \<Sum>exporter\<leftarrow>cs.
              (if n = name exporter then - pair_volume t importer exporter else 0)
              + (if n = name importer then pair_after_tariff t importer exporter else 0)))"

text \<open>
  \<open>adjust r x c\<close> is the entity \<open>c\<close> with \<open>x\<close> added to its stock of \<open>r\<close> (nothing
  happens when it has no such key), and \<open>cleared cs c\<close> is the entity \<open>c\<close> with the net
  inflow of every kind added, the inflows taken in the world \<open>cs\<close>.
\<close>

definition adjust :: "string \<Rightarrow> real \<Rightarrow> Country \<Rightarrow> Country" where
  "adjust r x c =
     (case map_of (resources c) r of
        None \<Rightarrow> c
      | Some v \<Rightarrow> c\<lparr>resources := AList.update r (v + x) (resources c)\<rparr>)"

definition cleared :: "Country list \<Rightarrow> Country \<Rightarrow> Country" where
  "cleared cs c = fold (\<lambda>r. adjust r (net r cs (name c))) (kinds cs) c"

text \<open>
  The same by position, as the loops work: \<open>adjust_all r f cs\<close> adds \<open>f k\<close> to the stock
  of the entity at position \<open>k\<close>, \<open>eff t cs i j k\<close> is what the pair of the importer at \<open>i\<close>
  and the exporter at \<open>j\<close> adds to the stock at \<open>k\<close>, \<open>net_idx\<close> is the sum over all pairs
  and \<open>clear_resource\<close> the world after the pass for one resource. \<open>view r c\<close> keeps of
  an entity what the pass for \<open>r\<close> reads.
\<close>

definition adjust_all :: "string \<Rightarrow> (nat \<Rightarrow> real) \<Rightarrow> Country list \<Rightarrow> Country list" where
  "adjust_all r f cs = map (\<lambda>k. adjust r (f k) (cs ! k)) [0..<length cs]"

definition eff :: "Tally \<Rightarrow> Country list \<Rightarrow> nat \<Rightarrow> nat \<Rightarrow> nat \<Rightarrow> real" where
  "eff t cs i j k =
     (if k = j then - pair_volume t (cs ! i) (cs ! j) else 0)
     + (if k = i then pair_after_tariff t (cs ! i) (cs ! j) else 0)"

definition net_idx :: "string \<Rightarrow> Country list \<Rightarrow> nat \<Rightarrow> real" where
  "net_idx r cs k =
     (let t = tally r cs in
      if total_supply t \<le> 0 \<or> total_demand t \<le> 0 then 0
      else (\<Sum>i\<leftarrow>[0..<length cs]. \<Sum>j\<leftarrow>[0..<length cs]. eff t cs i j k))"

definition clear_resource :: "string \<Rightarrow> Country list \<Rightarrow> Country list" where
  "clear_resource r cs = adjust_all r (net_idx r cs) cs"

definition view :: "string \<Rightarrow> Country \<Rightarrow> Country" where
  "view r c = c\<lparr>resources := [(r, stock r c)]\<rparr>"

text \<open>
  The demand and the supply that the first loop computes for an entity, from its stock
  and its consumption \<open>population * 0.2\<close>.
\<close>

definition shortfall :: "string \<Rightarrow> Country \<Rightarrow> real" where
  "shortfall r c =
     (if stock r c < population c * 0.2 then population c * 0.2 - stock r c else 0)"

definition surplus :: "string \<Rightarrow> Country \<Rightarrow> real" where
  "surplus r c =
     (if stock r c < population c * 0.2 then 0 else stock r c - population c * 0.2)"

section \<open>Properties\<close>

subsection \<open>Policies\<close>

text \<open>
  Claim C10. A policy name outside the six supported ones, or \<open>sanction\<close> without a
  target, leaves every field of the entity as it was.
\<close>

theorem apply_policy_unsupported_unchanged:
  "policy \<notin> {''lower_taxes'', ''raise_taxes'', ''lower_tariffs'', ''raise_tariffs'',
              ''invest_in_infrastructure'', ''sanction''}
     \<or> (policy = ''sanction'' \<and> target = None)
   \<Longrightarrow> apply_policy policy target c = c"
  unfolding apply_policy_def by (elim disjE) simp_all

theorem apply_policy_unsupported_unchanged_witness:
  "apply_policy ''declare_war'' (Some scenario_B) scenario_A = scenario_A
   \<and> apply_policy ''sanction'' None scenario_A = scenario_A"
  using apply_policy_unsupported_unchanged [of "''declare_war''" "Some scenario_B" scenario_A]
    apply_policy_unsupported_unchanged [of "''sanction''" None scenario_A]
  by simp

text \<open>
  Claim C7. An entity with a non-negative GDP has a non-negative GDP after
  \<open>update_economy\<close>, for every draw of the fluctuation in \<open>[-0.01, 0.01]\<close> and every
  tax rate and growth rate.
\<close>

theorem update_economy_gdp_nonneg:
  "0 \<le> gdp c \<Longrightarrow> - 0.01 \<le> fluctuation \<Longrightarrow> fluctuation \<le> 0.01
   \<Longrightarrow> 0 \<le> gdp (update_economy fluctuation c)"
  by (simp add: update_economy_def Let_def)

theorem update_economy_gdp_nonneg_witness:
  "0 \<le> gdp (update_economy (- 0.01) (create_country 1))
   \<and> gdp (update_economy (- 0.01) (create_country 1)) = 141"
  using update_economy_gdp_nonneg [of "create_country 1" "- 0.01"]
  by (simp add: create_country_def update_economy_def Let_def)

text \<open>One step of the rate policies keeps both rates in their ranges.\<close>

lemma rate_policy_keeps_ranges:
  "p \<in> {''lower_taxes'', ''raise_taxes'', ''lower_tariffs'', ''raise_tariffs''} \<Longrightarrow>
   0 \<le> tax_rate c \<and> tax_rate c \<le> 0.5 \<and> 0 \<le> tariff_rate c \<and> tariff_rate c \<le> 1 \<Longrightarrow>
   0 \<le> tax_rate (apply_policy p t c) \<and> tax_rate (apply_policy p t c) \<le> 0.5
   \<and> 0 \<le> tariff_rate (apply_policy p t c) \<and> tariff_rate (apply_policy p t c) \<le> 1"
  unfolding apply_policy_def by (elim insertE emptyE) (simp_all add: max_def min_def)

text \<open>
  Claim C8. From a tax rate in \<open>[0, 0.5]\<close> and a tariff rate in \<open>[0, 1]\<close>, every finite
  sequence of calls of \<open>apply_policy\<close> with the policies \<open>lower_taxes\<close>,
  \<open>raise_taxes\<close>, \<open>lower_tariffs\<close> and \<open>raise_tariffs\<close> (with any targets) ends with
  the tax rate in \<open>[0, 0.5]\<close> and the tariff rate in \<open>[0, 1]\<close>.
\<close>

theorem rate_policies_keep_ranges:
  "\<forall>(p, t) \<in> set ps. p \<in> {''lower_taxes'', ''raise_taxes'', ''lower_tariffs'', ''raise_tariffs''}
   \<Longrightarrow> 0 \<le> tax_rate c \<Longrightarrow> tax_rate c \<le> 0.5 \<Longrightarrow> 0 \<le> tariff_rate c \<Longrightarrow> tariff_rate c \<le> 1
   \<Longrightarrow> 0 \<le> tax_rate (fold (\<lambda>(p, t). apply_policy p t) ps c)
     \<and> tax_rate (fold (\<lambda>(p, t). apply_policy p t) ps c) \<le> 0.5
     \<and> 0 \<le> tariff_rate (fold (\<lambda>(p, t). apply_policy p t) ps c)
     \<and> tariff_rate (fold (\<lambda>(p, t). apply_policy p t) ps c) \<le> 1"
proof (induction ps arbitrary: c)
  case Nil
  then show ?case by simp
next
  case (Cons pt ps)
  obtain p t where pt: "pt = (p, t)" by (cases pt)
  have p: "p \<in> {''lower_taxes'', ''raise_taxes'', ''lower_tariffs'', ''raise_tariffs''}"
    using Cons.prems(1) pt by simp
  have rest: "\<forall>(p, t) \<in> set ps.
      p \<in> {''lower_taxes'', ''raise_taxes'', ''lower_tariffs'', ''raise_tariffs''}"
    using Cons.prems(1) by simp
  from rate_policy_keeps_ranges [OF p, of c t] Cons.prems
  have step: "0 \<le> tax_rate (apply_policy p t c)" "tax_rate (apply_policy p t c) \<le> 0.5"
    "0 \<le> tariff_rate (apply_policy p t c)" "tariff_rate (apply_policy p t c) \<le> 1"
    by simp_all
  from Cons.IH [OF rest step] show ?case by (simp add: pt)
qed

theorem rate_policies_keep_ranges_witness:
  "tax_rate (fold (\<lambda>(p, t). apply_policy p t)
       [(''lower_taxes'', None), (''raise_tariffs'', None), (''lower_taxes'', None),
        (''lower_taxes'', None), (''lower_taxes'', None), (''lower_taxes'', None),
        (''lower_taxes'', None), (''lower_taxes'', None), (''lower_taxes'', None)]
       (create_country 0)) \<in> {0 .. 0.5}
   \<and> tariff_rate (fold (\<lambda>(p, t). apply_policy p t)
       [(''lower_taxes'', None), (''raise_tariffs'', None), (''lower_taxes'', None),
        (''lower_taxes'', None), (''lower_taxes'', None), (''lower_taxes'', None),
        (''lower_taxes'', None), (''lower_taxes'', None), (''lower_taxes'', None)]
       (create_country 0)) \<in> {0 .. 1}"
  using rate_policies_keep_ranges [of
       "[(''lower_taxes'', None), (''raise_tariffs'', None), (''lower_taxes'', None),
        (''lower_taxes'', None), (''lower_taxes'', None), (''lower_taxes'', None),
        (''lower_taxes'', None), (''lower_taxes'', None), (''lower_taxes'', None)]"
       "create_country 0"]
  by (simp add: create_country_def)

text \<open>
  Claim C9. Sanctioning is idempotent: after \<open>apply_policy('sanction', B)\<close> the name of
  \<open>B\<close> is in \<open>A.sanctions\<close>, a second application changes nothing, and
  \<open>A.new_sanctions\<close> gains the name only when it was not yet in \<open>A.sanctions\<close>.
\<close>

theorem sanction_idempotent:
  "sanctions (apply_policy ''sanction'' (Some b) a) = insert (name b) (sanctions a)
   \<and> new_sanctions (apply_policy ''sanction'' (Some b) a) =
       (if name b \<in> sanctions a then new_sanctions a else insert (name b) (new_sanctions a))
   \<and> apply_policy ''sanction'' (Some b) (apply_policy ''sanction'' (Some b) a) =
       apply_policy ''sanction'' (Some b) a"
  by (simp add: apply_policy_def insert_absorb)

theorem sanction_idempotent_witness:
  "sanctions (apply_policy ''sanction'' (Some scenario_B) scenario_A) = {''B''}
   \<and> new_sanctions (apply_policy ''sanction'' (Some scenario_B) scenario_A) = {''B''}
   \<and> new_sanctions (apply_policy ''sanction'' (Some scenario_B)
        (reset_temp (apply_policy ''sanction'' (Some scenario_B) scenario_A))) = {}"
  using sanction_idempotent [of scenario_B scenario_A]
    sanction_idempotent [of scenario_B
      "reset_temp (apply_policy ''sanction'' (Some scenario_B) scenario_A)"]
  by (simp add: scenario_A_def scenario_B_def Country_init_def reset_temp_def)

text \<open>
  Claim C6. \<open>invest_in_infrastructure\<close> leaves the entity as it was when a stock is
  below 10; when every stock is at least 10 it keeps the keys, takes exactly 10 from
  every stock, adds exactly 0.005 to the growth rate and changes no other field.
\<close>

theorem invest_in_infrastructure_effect:
  "((\<exists>v \<in> snd ` set (resources c). v < 10) \<longrightarrow>
      apply_policy ''invest_in_infrastructure'' target c = c)
   \<and> ((\<forall>v \<in> snd ` set (resources c). 10 \<le> v) \<longrightarrow>
      map fst (resources (apply_policy ''invest_in_infrastructure'' target c)) =
        map fst (resources c)
      \<and> (\<forall>key. map_of (resources (apply_policy ''invest_in_infrastructure'' target c)) key =
            map_option (\<lambda>v. v - 10) (map_of (resources c) key))
      \<and> growth_rate (apply_policy ''invest_in_infrastructure'' target c) =
          growth_rate c + 0.005
      \<and> (apply_policy ''invest_in_infrastructure'' target c)
          \<lparr>resources := resources c, growth_rate := growth_rate c\<rparr> = c)"
proof (intro conjI impI)
  assume "\<exists>v \<in> snd ` set (resources c). v < 10"
  then have "\<not> list_all (\<lambda>v. v \<ge> 10) (map snd (resources c))"
    by (force simp: list_all_iff)
  then show "apply_policy ''invest_in_infrastructure'' target c = c"
    by (simp add: apply_policy_def)
next
  assume "\<forall>v \<in> snd ` set (resources c). 10 \<le> v"
  then have "list_all (\<lambda>v. v \<ge> 10) (map snd (resources c))"
    by (auto simp: list_all_iff)
  then have eq: "apply_policy ''invest_in_infrastructure'' target c =
     c\<lparr>resources := map (\<lambda>(key, v). (key, v - 10)) (resources c),
       growth_rate := growth_rate c + 0.005\<rparr>"
    by (simp add: apply_policy_def)
  show "map fst (resources (apply_policy ''invest_in_infrastructure'' target c)) =
      map fst (resources c)"
    by (simp add: eq case_prod_unfold comp_def)
  show "\<forall>key. map_of (resources (apply_policy ''invest_in_infrastructure'' target c)) key =
      map_option (\<lambda>v. v - 10) (map_of (resources c) key)"
    by (simp add: eq map_of_map)
  show "growth_rate (apply_policy ''invest_in_infrastructure'' target c) =
      growth_rate c + 0.005"
    by (simp add: eq)
  show "(apply_policy ''invest_in_infrastructure'' target c)
      \<lparr>resources := resources c, growth_rate := growth_rate c\<rparr> = c"
    by (simp add: eq)
qed

theorem invest_in_infrastructure_effect_witness:
  "apply_policy ''invest_in_infrastructure'' None (create_country 1) \<noteq> create_country 1
   \<and> map_of (resources (apply_policy ''invest_in_infrastructure'' None (create_country 1)))
        ''oil'' = Some 0
   \<and> growth_rate (apply_policy ''invest_in_infrastructure'' None (create_country 1)) = 0.03
   \<and> apply_policy ''invest_in_infrastructure'' None scenario_A = scenario_A"
proof -
  have big: "\<forall>v \<in> snd ` set (resources (create_country 1)). 10 \<le> v"
    by (simp add: create_country_def)
  have small: "\<exists>v \<in> snd ` set (resources scenario_A). v < 10"
    by (simp add: scenario_A_def)
  from invest_in_infrastructure_effect [of "create_country 1" None] big
  have 1: "map_of (resources (apply_policy ''invest_in_infrastructure'' None (create_country 1)))
        ''oil'' = map_option (\<lambda>v. v - 10) (map_of (resources (create_country 1)) ''oil'')"
    and 2: "growth_rate (apply_policy ''invest_in_infrastructure'' None (create_country 1)) =
        growth_rate (create_country 1) + 0.005"
    by blast+
  from invest_in_infrastructure_effect [of scenario_A None] small
  have 3: "apply_policy ''invest_in_infrastructure'' None scenario_A = scenario_A"
    by blast
  have 4: "map_of (resources (apply_policy ''invest_in_infrastructure'' None (create_country 1)))
        ''oil'' = Some 0"
    using 1 by (simp add: create_country_def)
  have 5: "growth_rate (apply_policy ''invest_in_infrastructure'' None (create_country 1)) = 0.03"
    using 2 by (simp add: create_country_def)
  have 6: "apply_policy ''invest_in_infrastructure'' None (create_country 1) \<noteq> create_country 1"
  proof
    assume "apply_policy ''invest_in_infrastructure'' None (create_country 1) = create_country 1"
    then have "growth_rate (create_country 1) = 0.03" using 5 by simp
    then show False by (simp add: create_country_def)
  qed
  from 3 4 5 6 show ?thesis by blast
qed

subsection \<open>Construction\<close>

text \<open>
  Claim C4, as the code has it. Construction validates nothing: every list of
  entities, also one with duplicate names, with different sets of resource kinds or
  with a negative population, is accepted and stored as it is.
\<close>

theorem World_init_accepts_every_list:
  "\<exists>w. World_init cs = Inr w \<and> countries w = cs"
  by (simp add: World_init_def)

text \<open>
  The claim as written fails: a list with two entities of the same name, of which the
  second lacks the \<open>oil\<close> key and has a negative population, is built into a world.
\<close>

theorem World_init_accepts_malformed:
  "\<not> distinct (map name [scenario_A, malformed_A])
   \<and> set (map fst (resources malformed_A)) \<noteq> set (map fst (resources scenario_A))
   \<and> population malformed_A < 0
   \<and> World_init [scenario_A, malformed_A] = Inr \<lparr>countries = [scenario_A, malformed_A]\<rparr>"
  by (simp add: World_init_def scenario_A_def malformed_A_def Country_init_def)

subsection \<open>Trade clearing on concrete worlds\<close>

lemmas trade_defs =
  trade_resource_def tally_def tally_country_def trade_importer_def trade_pair_def
  stock_add_def dict_add_def

text \<open>
  Claim C5. Two entities with different names and no sanctions between them: \<open>A\<close>
  holds 100 oil with population 10 and tariff 0.1, \<open>B\<close> holds no oil with population 10
  and the tariff 0.1 that destroys 0.2 of the 2.0 shipped. Trade clearing for oil
  returns, and leaves 98 oil with \<open>A\<close> and 1.8 oil with \<open>B\<close>.
\<close>

theorem two_entity_oil_scenario:
  assumes "name A \<noteq> name B"
    and "map_of (resources A) ''oil'' = Some 100.0" and "population A = 10.0"
    and "tariff_rate A = 0.1"
    and "map_of (resources B) ''oil'' = Some 0.0" and "population B = 10.0"
    and "tariff_rate B = 0.1"
    and "name B \<notin> sanctions A" and "name A \<notin> sanctions B"
  shows "\<exists>A' B'. trade_resource ''oil'' [A, B] = Inr [A', B']
           \<and> stock ''oil'' A' = 98.0 \<and> stock ''oil'' B' = 1.8"
  using assms by (simp add: trade_defs stock_def update_conv')

theorem two_entity_oil_scenario_witness:
  "\<exists>A' B'. trade_resource ''oil'' [scenario_A, scenario_B] = Inr [A', B']
           \<and> stock ''oil'' A' = 98.0 \<and> stock ''oil'' B' = 1.8"
  using two_entity_oil_scenario [of scenario_A scenario_B]
  by (simp add: scenario_A_def scenario_B_def Country_init_def)

text \<open>Trade clearing in the world of \<open>short_A\<close> and \<open>short_B\<close>, one resource at a time.\<close>

lemma short_world_oil:
  "trade_resource ''oil'' [short_A, short_B] =
   Inr [short_A\<lparr>resources := [(''oil'', - 17), (''minerals'', 0), (''agriculture'', 0)]\<rparr>,
        short_B\<lparr>resources := [(''oil'', 18), (''minerals'', 0), (''agriculture'', 0)]\<rparr>]"
  by (simp add: trade_defs short_A_def short_B_def Country_init_def)

lemma short_world_minerals:
  "trade_resource ''minerals''
     [short_A\<lparr>resources := [(''oil'', - 17), (''minerals'', 0), (''agriculture'', 0)]\<rparr>,
      short_B\<lparr>resources := [(''oil'', 18), (''minerals'', 0), (''agriculture'', 0)]\<rparr>] =
   Inr [short_A\<lparr>resources := [(''oil'', - 17), (''minerals'', 0), (''agriculture'', 0)]\<rparr>,
        short_B\<lparr>resources := [(''oil'', 18), (''minerals'', 0), (''agriculture'', 0)]\<rparr>]"
  by (simp add: trade_resource_def tally_def tally_country_def short_A_def short_B_def
      Country_init_def)

lemma short_world_agriculture:
  "trade_resource ''agriculture''
     [short_A\<lparr>resources := [(''oil'', - 17), (''minerals'', 0), (''agriculture'', 0)]\<rparr>,
      short_B\<lparr>resources := [(''oil'', 18), (''minerals'', 0), (''agriculture'', 0)]\<rparr>] =
   Inr [short_A\<lparr>resources := [(''oil'', - 17), (''minerals'', 0), (''agriculture'', 0)]\<rparr>,
        short_B\<lparr>resources := [(''oil'', 18), (''minerals'', 0), (''agriculture'', 0)]\<rparr>]"
  by (simp add: trade_resource_def tally_def tally_country_def short_A_def short_B_def
      Country_init_def)

lemma short_world_resource_types:
  "map fst (resources short_A) = [''oil'', ''minerals'', ''agriculture'']"
  by (simp add: short_A_def Country_init_def)

text \<open>
  Claim C1, at the input where the code breaks it. Every stock of \<open>short_A\<close> and
  \<open>short_B\<close> is non-negative, both populations are positive, both tariffs are 0.1 and
  nobody is sanctioned. The supply of oil is 1 and the demand is 20; the one exporter
  ships its share of the supply, which is all of it, times the whole demand, and ends
  with \<open>3 - 20 = -17\<close> oil.
\<close>

theorem resolve_trade_negative_stock:
  "list_all (\<lambda>c. list_all (\<lambda>(key, v). 0 \<le> v) (resources c) \<and> 0 < population c)
     [short_A, short_B]
   \<and> resolve_trade \<lparr>countries = [short_A, short_B]\<rparr> =
       Inr \<lparr>countries =
         [short_A\<lparr>resources := [(''oil'', - 17), (''minerals'', 0), (''agriculture'', 0)]\<rparr>,
          short_B\<lparr>resources := [(''oil'', 18), (''minerals'', 0), (''agriculture'', 0)]\<rparr>]\<rparr>
   \<and> stock ''oil''
        (short_A\<lparr>resources := [(''oil'', - 17), (''minerals'', 0), (''agriculture'', 0)]\<rparr>)
       < 0"
proof (intro conjI)
  show "list_all (\<lambda>c. list_all (\<lambda>(key, v). 0 \<le> v) (resources c) \<and> 0 < population c)
     [short_A, short_B]"
    by (simp add: short_A_def short_B_def Country_init_def)
  show "resolve_trade \<lparr>countries = [short_A, short_B]\<rparr> =
       Inr \<lparr>countries =
         [short_A\<lparr>resources := [(''oil'', - 17), (''minerals'', 0), (''agriculture'', 0)]\<rparr>,
          short_B\<lparr>resources := [(''oil'', 18), (''minerals'', 0), (''agriculture'', 0)]\<rparr>]\<rparr>"
    by (simp add: resolve_trade_def short_world_resource_types short_world_oil
        short_world_minerals short_world_agriculture)
  show "stock ''oil''
        (short_A\<lparr>resources := [(''oil'', - 17), (''minerals'', 0), (''agriculture'', 0)]\<rparr>)
       < 0"
    by (simp add: stock_def)
qed

text \<open>
  The other three operations keep every stock non-negative (production needs a
  population that is not negative).
\<close>

lemma produce_resources_nonneg:
  "0 \<le> population c \<Longrightarrow> \<forall>(key, v) \<in> set (resources c). 0 \<le> v
   \<Longrightarrow> \<forall>(key, v) \<in> set (resources (produce_resources c)). 0 \<le> v"
  by (auto simp: produce_resources_def Let_def)

lemma update_economy_resources: "resources (update_economy fluctuation c) = resources c"
  by (simp add: update_economy_def Let_def)

lemma apply_policy_nonneg:
  "\<forall>(key, v) \<in> set (resources c). 0 \<le> v
   \<Longrightarrow> \<forall>(key, v) \<in> set (resources (apply_policy policy target c)). 0 \<le> v"
  by (auto simp: apply_policy_def Let_def list_all_iff split: option.splits)

subsection \<open>Adding to stocks\<close>

text \<open>Facts about \<^const>\<open>adjust\<close>, \<^const>\<open>adjust_all\<close> and \<open>stock_add\<close>.\<close>

lemma adjust_None: "map_of (resources c) r = None \<Longrightarrow> adjust r x c = c"
  by (simp add: adjust_def)

lemma adjust_Some:
  "map_of (resources c) r = Some v \<Longrightarrow>
   adjust r x c = c\<lparr>resources := AList.update r (v + x) (resources c)\<rparr>"
  by (simp add: adjust_def)

lemma adjust_fields [simp]:
  "name (adjust r x c) = name c" "sanctions (adjust r x c) = sanctions c"
  "tariff_rate (adjust r x c) = tariff_rate c" "population (adjust r x c) = population c"
  by (simp_all add: adjust_def split: option.splits)

lemma adjust_keys [simp]: "map fst (resources (adjust r x c)) = map fst (resources c)"
proof (cases "map_of (resources c) r")
  case None
  then show ?thesis by (simp add: adjust_None)
next
  case (Some v)
  then have "r \<in> fst ` set (resources c)"
    by (metis map_of_eq_None_iff option.distinct(1))
  then show ?thesis by (simp add: adjust_Some [OF Some] update_keys)
qed

lemma adjust_kinds [simp]: "fst ` set (resources (adjust r x c)) = fst ` set (resources c)"
  using adjust_keys [of r x c] by (metis set_map)

lemma adjust_0 [simp]: "adjust r 0 c = c"
  by (simp add: adjust_def update_triv split: option.splits)

lemma map_of_adjust_other:
  "r' \<noteq> r \<Longrightarrow> map_of (resources (adjust r x c)) r' = map_of (resources c) r'"
  by (simp add: adjust_def update_conv' split: option.splits)

lemma map_of_adjust_same:
  "map_of (resources c) r = Some v \<Longrightarrow> map_of (resources (adjust r x c)) r = Some (v + x)"
  by (simp add: adjust_Some update_conv')

lemma adjust_adjust: "adjust r x (adjust r y c) = adjust r (y + x) c"
proof (cases "map_of (resources c) r")
  case None
  then show ?thesis by (simp add: adjust_None)
next
  case (Some v)
  have "map_of (resources (c\<lparr>resources := AList.update r (v + y) (resources c)\<rparr>)) r =
      Some (v + y)"
    by (simp add: update_conv')
  from adjust_Some [OF this, of x] show ?thesis
    by (simp add: adjust_Some [OF Some] add.assoc)
qed



lemma stock_adjust_same:
  assumes "r \<in> fst ` set (resources c)"
  shows "stock r (adjust r x c) = stock r c + x"
proof -
  obtain v where v: "map_of (resources c) r = Some v"
    using assms by (metis map_of_eq_None_iff not_Some_eq)
  then show ?thesis by (simp add: stock_def map_of_adjust_same)
qed

lemma stock_adjust_other: "r' \<noteq> r \<Longrightarrow> stock r' (adjust r x c) = stock r' c"
  by (simp add: stock_def map_of_adjust_other)

lemma view_adjust: "r' \<noteq> r \<Longrightarrow> view r' (adjust r x c) = view r' c"
  by (simp add: view_def stock_adjust_other) (simp add: adjust_def split: option.splits)

lemma length_adjust_all [simp]: "length (adjust_all r f cs) = length cs"
  by (simp add: adjust_all_def)

lemma nth_adjust_all [simp]: "k < length cs \<Longrightarrow> adjust_all r f cs ! k = adjust r (f k) (cs ! k)"
  by (simp add: adjust_all_def)

lemma adjust_all_0: "adjust_all r (\<lambda>_. 0) cs = cs"
  by (rule nth_equalityI) simp_all

lemma adjust_all_cong: "(\<And>k. k < length cs \<Longrightarrow> f k = g k) \<Longrightarrow> adjust_all r f cs = adjust_all r g cs"
  by (rule nth_equalityI) simp_all

lemma stock_add_adjust_all:
  assumes "has_kind r cs" and "j < length cs"
  shows "stock_add r j x (adjust_all r f cs) = Inr (adjust_all r (f(j := f j + x)) cs)"
proof -
  have "r \<in> fst ` set (resources (adjust r (f j) (cs ! j)))"
    using assms by (simp add: has_kind_def)
  then obtain v where v: "map_of (resources (adjust r (f j) (cs ! j))) r = Some v"
    by (metis map_of_eq_None_iff not_Some_eq)
  have "(adjust r (f j) (cs ! j))\<lparr>resources := AList.update r (v + x) (resources (adjust r (f j) (cs ! j)))\<rparr>
      = adjust r x (adjust r (f j) (cs ! j))"
    using v by (simp add: adjust_Some)
  then have "stock_add r j x (adjust_all r f cs) =
      Inr ((adjust_all r f cs)[j := adjust r (f j + x) (cs ! j)])"
    using v assms(2) by (simp add: stock_add_def dict_add_def adjust_adjust)
  also have "(adjust_all r f cs)[j := adjust r (f j + x) (cs ! j)] = adjust_all r (f(j := f j + x)) cs"
    using assms(2) by (intro nth_equalityI) (simp_all add: nth_list_update)
  finally show ?thesis .
qed

subsection \<open>The loops of trade clearing\<close>

text \<open>
  Each loop is followed from a world in which position \<open>k\<close> has received \<open>f k\<close> so
  far. No lookup fails when every entity has the key: the pass for a resource returns,
  and adds \<^const>\<open>net_idx\<close> to every stock.
\<close>

lemma upt_below: "set [0..<n] \<subseteq> {..<n}"
  by auto

lemma trade_pair_adjust_all:
  assumes kind: "has_kind r cs" and i: "i < length cs" and j: "j < length cs"
    and s: "supplies t (name (cs ! j)) \<noteq> None"
    and d: "demands t (name (cs ! i)) = Some d" "0 < d"
  shows "trade_pair r t d i j (adjust_all r f cs) =
     Inr (adjust_all r (\<lambda>k. f k + eff t cs i j k) cs)"
proof -
  obtain sp where sp: "supplies t (name (cs ! j)) = Some sp" using s by blast
  have dem: "demand_of t (cs ! i) = d" and sup: "supply_of t (cs ! j) = sp"
    using d sp by (simp_all add: demand_of_def supply_of_def)
  show ?thesis
  proof (cases "sp \<le> 0 \<or> blocked (cs ! i) (cs ! j)")
    case True
    then have pv0: "pair_volume t (cs ! i) (cs ! j) = 0"
      using sup by (auto simp: pair_volume_def)
    have "\<And>k. f k + eff t cs i j k = f k"
      unfolding eff_def pair_after_tariff_def pv0 by simp
    moreover have "trade_pair r t d i j (adjust_all r f cs) = Inr (adjust_all r f cs)"
      using True i j sp by (auto simp: trade_pair_def blocked_def Let_def)
    ultimately show ?thesis by simp
  next
    case False
    then have vol: "pair_volume t (cs ! i) (cs ! j) = sp / total_supply t * d"
      using sup dem d by (simp add: pair_volume_def)
    have "trade_pair r t d i j (adjust_all r f cs) =
        (case stock_add r j (- (sp / total_supply t * d)) (adjust_all r f cs) of
           Inl e \<Rightarrow> Inl e
         | Inr cs' \<Rightarrow> stock_add r i (sp / total_supply t * d * (1 - tariff_rate (cs ! i))) cs')"
      using False i j sp by (simp add: trade_pair_def blocked_def Let_def)
    also have "\<dots> = Inr (adjust_all r
        ((f(j := f j + - (sp / total_supply t * d)))
           (i := (f(j := f j + - (sp / total_supply t * d))) i
                 + sp / total_supply t * d * (1 - tariff_rate (cs ! i)))) cs)"
      by (simp only: stock_add_adjust_all [OF kind j] stock_add_adjust_all [OF kind i] sum.case)
    also have "(f(j := f j + - (sp / total_supply t * d)))
           (i := (f(j := f j + - (sp / total_supply t * d))) i
                 + sp / total_supply t * d * (1 - tariff_rate (cs ! i)))
         = (\<lambda>k. f k + eff t cs i j k)"
      unfolding eff_def pair_after_tariff_def vol by (auto simp: fun_eq_iff)
    finally show ?thesis .
  qed
qed

lemma inner_loop:
  assumes kind: "has_kind r cs" and i: "i < length cs"
    and s: "\<forall>c \<in> set cs. supplies t (name c) \<noteq> None"
    and d: "demands t (name (cs ! i)) = Some d" "0 < d"
    and js: "set js \<subseteq> {..<length cs}"
  shows "for_each (trade_pair r t d i) js (adjust_all r f cs) =
     Inr (adjust_all r (\<lambda>k. f k + (\<Sum>j\<leftarrow>js. eff t cs i j k)) cs)"
  using js
proof (induction js arbitrary: f)
  case Nil
  then show ?case by simp
next
  case (Cons j js)
  have j: "j < length cs" using Cons.prems by simp
  have "supplies t (name (cs ! j)) \<noteq> None" using s j by simp
  from trade_pair_adjust_all [OF kind i j this d]
  have step: "trade_pair r t d i j (adjust_all r f cs) =
      Inr (adjust_all r (\<lambda>k. f k + eff t cs i j k) cs)" .
  have "set js \<subseteq> {..<length cs}" using Cons.prems by simp
  from Cons.IH [OF this, of "\<lambda>k. f k + eff t cs i j k"] step
  show ?case by (simp add: add.assoc)
qed

lemma trade_importer_adjust_all:
  assumes kind: "has_kind r cs" and i: "i < length cs"
    and s: "\<forall>c \<in> set cs. supplies t (name c) \<noteq> None"
    and dm: "\<forall>c \<in> set cs. demands t (name c) \<noteq> None"
  shows "trade_importer r t i (adjust_all r f cs) =
     Inr (adjust_all r (\<lambda>k. f k + (\<Sum>j\<leftarrow>[0..<length cs]. eff t cs i j k)) cs)"
proof -
  obtain d where d: "demands t (name (cs ! i)) = Some d" using dm i by fastforce
  show ?thesis
  proof (cases "d \<le> 0")
    case True
    then have "\<And>j. pair_volume t (cs ! i) (cs ! j) = 0"
      using d by (simp add: pair_volume_def demand_of_def)
    then have "\<And>j k. eff t cs i j k = 0"
      by (simp add: eff_def pair_after_tariff_def)
    then show ?thesis using True d i by (simp add: trade_importer_def)
  next
    case False
    then have "0 < d" by simp
    from inner_loop [OF kind i s d this upt_below, of f] False d i
    show ?thesis by (simp add: trade_importer_def)
  qed
qed

lemma outer_loop:
  assumes kind: "has_kind r cs"
    and s: "\<forall>c \<in> set cs. supplies t (name c) \<noteq> None"
    and dm: "\<forall>c \<in> set cs. demands t (name c) \<noteq> None"
    and "set is \<subseteq> {..<length cs}"
  shows "for_each (trade_importer r t) is (adjust_all r f cs) =
     Inr (adjust_all r (\<lambda>k. f k + (\<Sum>i\<leftarrow>is. \<Sum>j\<leftarrow>[0..<length cs]. eff t cs i j k)) cs)"
  using assms(4)
proof (induction "is" arbitrary: f)
  case Nil
  then show ?case by simp
next
  case (Cons i "is")
  have i: "i < length cs" using Cons.prems by simp
  have rest: "set is \<subseteq> {..<length cs}" using Cons.prems by simp
  from Cons.IH [OF rest, of "\<lambda>k. f k + (\<Sum>j\<leftarrow>[0..<length cs]. eff t cs i j k)"]
    trade_importer_adjust_all [OF kind i s dm, of f]
  show ?case by (simp add: add.assoc)
qed

lemma tally_country_dom:
  "dom (demands (tally_country r c t)) = insert (name c) (dom (demands t))"
  "dom (supplies (tally_country r c t)) = insert (name c) (dom (supplies t))"
  by (simp_all add: tally_country_def Let_def)

lemma tally_dom:
  "dom (demands (fold (tally_country r) cs t)) = dom (demands t) \<union> name ` set cs
   \<and> dom (supplies (fold (tally_country r) cs t)) = dom (supplies t) \<union> name ` set cs"
proof (induction cs arbitrary: t)
  case Nil
  then show ?case by simp
next
  case (Cons c cs)
  show ?case by (simp add: Cons.IH tally_country_dom)
qed

lemma tally_defined:
  assumes "c \<in> set cs"
  shows "demands (tally r cs) (name c) \<noteq> None" and "supplies (tally r cs) (name c) \<noteq> None"
proof -
  have "name c \<in> dom (demands (tally r cs))" "name c \<in> dom (supplies (tally r cs))"
    using assms by (simp_all add: tally_def tally_dom)
  then show "demands (tally r cs) (name c) \<noteq> None" "supplies (tally r cs) (name c) \<noteq> None"
    by blast+
qed

lemma trade_resource_adjust_all:
  assumes "has_kind r cs"
  shows "trade_resource r cs = Inr (adjust_all r (net_idx r cs) cs)"
proof -
  let ?t = "tally r cs"
  show ?thesis
  proof (cases "total_supply ?t \<le> 0 \<or> total_demand ?t \<le> 0")
    case True
    then have "net_idx r cs = (\<lambda>_. 0)" by (auto simp: net_idx_def Let_def)
    then show ?thesis using True by (simp add: trade_resource_def Let_def adjust_all_0)
  next
    case False
    have "for_each (trade_importer r ?t) [0..<length cs] (adjust_all r (\<lambda>_. 0) cs) =
       Inr (adjust_all r (\<lambda>k. 0 + (\<Sum>i\<leftarrow>[0..<length cs]. \<Sum>j\<leftarrow>[0..<length cs]. eff ?t cs i j k)) cs)"
      by (rule outer_loop [OF assms _ _ upt_below]) (simp_all add: tally_defined)
    moreover have "net_idx r cs =
        (\<lambda>k. \<Sum>i\<leftarrow>[0..<length cs]. \<Sum>j\<leftarrow>[0..<length cs]. eff ?t cs i j k)"
      using False by (auto simp: net_idx_def Let_def)
    ultimately show ?thesis using False
      by (simp add: trade_resource_def Let_def adjust_all_0)
  qed
qed

subsection \<open>Total stocks\<close>

lemma sum_list_nth_upt: "(\<Sum>k\<leftarrow>[0..<length xs]. f (xs ! k)) = (\<Sum>x\<leftarrow>xs. f x)"
proof -
  have "map (\<lambda>k. f (xs ! k)) [0..<length xs] = map f (map (nth xs) [0..<length xs])"
    by simp
  then show ?thesis by (simp only: map_nth)
qed




lemma sum_list_cong_upt:
  "(\<And>k. k < n \<Longrightarrow> f k = (g k :: real)) \<Longrightarrow> (\<Sum>k\<leftarrow>[0..<n]. f k) = (\<Sum>k\<leftarrow>[0..<n]. g k)"
  by (rule arg_cong [where f = sum_list]) simp




lemma view_fields [simp]:
  "name (view r c) = name c" "sanctions (view r c) = sanctions c"
  "tariff_rate (view r c) = tariff_rate c" "population (view r c) = population c"
  "stock r (view r c) = stock r c"
  by (simp_all add: view_def stock_def)

lemma map_view_adjust_all:
  "r' \<noteq> r \<Longrightarrow> map (view r') (adjust_all r f cs) = map (view r') cs"
  by (rule nth_equalityI) (simp_all add: view_adjust)

lemma has_kind_adjust_all [simp]: "has_kind r' (adjust_all r f cs) = has_kind r' cs"
  by (simp add: has_kind_def all_set_conv_all_nth)

lemma tally_country_stock:
  "tally_country r c t =
     (if stock r c < population c * 0.2
      then t\<lparr>demands := (demands t)(name c \<mapsto> population c * 0.2 - stock r c),
             total_demand := total_demand t + (population c * 0.2 - stock r c),
             supplies := (supplies t)(name c \<mapsto> 0)\<rparr>
      else t\<lparr>supplies := (supplies t)(name c \<mapsto> stock r c - population c * 0.2),
             total_supply := total_supply t + (stock r c - population c * 0.2),
             demands := (demands t)(name c \<mapsto> 0)\<rparr>)"
  by (simp add: tally_country_def stock_def Let_def)

lemma tally_country_view: "tally_country r (view r c) = tally_country r c"
  by (rule ext) (simp add: tally_country_stock)

lemma tally_view: "tally r (map (view r) cs) = tally r cs"
  by (simp add: tally_def fold_map o_def tally_country_view)


lemma pair_volume_view [simp]: "pair_volume t (view r a) (view r b) = pair_volume t a b"
  by (simp add: pair_volume_def demand_of_def supply_of_def blocked_def)

lemma pair_after_tariff_view [simp]:
  "pair_after_tariff t (view r a) (view r b) = pair_after_tariff t a b"
  by (simp add: pair_after_tariff_def)




lemma has_kind_clear_resource [simp]: "has_kind r' (clear_resource r cs) = has_kind r' cs"
  by (simp add: clear_resource_def)

lemma map_view_clear_resource:
  "r' \<noteq> r \<Longrightarrow> map (view r') (clear_resource r cs) = map (view r') cs"
  by (simp add: clear_resource_def map_view_adjust_all)

lemma trade_resource_clear:
  "has_kind r cs \<Longrightarrow> trade_resource r cs = Inr (clear_resource r cs)"
  by (simp add: clear_resource_def trade_resource_adjust_all)

lemma for_each_trade_resource:
  "\<forall>r \<in> set rs. has_kind r cs \<Longrightarrow>
   for_each trade_resource rs cs = Inr (fold clear_resource rs cs)"
  by (induction rs arbitrary: cs) (simp_all add: trade_resource_clear)




lemma same_kinds_has_kind: "same_kinds cs \<Longrightarrow> \<forall>r \<in> set (kinds cs). has_kind r cs"
  by (auto simp: same_kinds_def has_kind_def)

lemma same_kinds_distinct: "same_kinds cs \<Longrightarrow> distinct (kinds cs)"
  by (cases cs) (auto simp: same_kinds_def kinds_def)

lemma resolve_trade_fold:
  "same_kinds (countries w) \<Longrightarrow>
   resolve_trade w = Inr (w\<lparr>countries := fold clear_resource (kinds (countries w)) (countries w)\<rparr>)"
  using for_each_trade_resource [OF same_kinds_has_kind, of "countries w"]
  by (cases "countries w") (simp_all add: resolve_trade_def kinds_def)





subsection \<open>Order of the entities\<close>

text \<open>
  With unique names the position of an entity is given by its name, and the pass for a
  resource adds \<^const>\<open>net\<close> to the stock of every entity. \<^const>\<open>net\<close> sums over the
  entities and reads the dictionaries of the first loop, which do not depend on the
  order of the list.
\<close>

lemma index_eq_name:
  assumes "distinct (map name cs)" "k < length cs" "j < length cs"
  shows "(k = j) = (name (cs ! k) = name (cs ! j))"
  using nth_eq_iff_index_eq [of "map name cs" k j] assms by simp

lemma net_idx_net:
  assumes d: "distinct (map name cs)" and k: "k < length cs"
  shows "net_idx r cs k = net r cs (name (cs ! k))"
proof (cases "total_supply (tally r cs) \<le> 0 \<or> total_demand (tally r cs) \<le> 0")
  case True
  then show ?thesis by (auto simp: net_idx_def net_def Let_def)
next
  case False
  let ?t = "tally r cs" and ?n = "length cs" and ?m = "name (cs ! k)"
  let ?g = "\<lambda>a b. (if ?m = name b then - pair_volume ?t a b else 0)
              + (if ?m = name a then pair_after_tariff ?t a b else 0)"
  have "net_idx r cs k = (\<Sum>i\<leftarrow>[0..<?n]. \<Sum>j\<leftarrow>[0..<?n]. eff ?t cs i j k)"
    using False by (auto simp: net_idx_def Let_def)
  also have "\<dots> = (\<Sum>i\<leftarrow>[0..<?n]. \<Sum>j\<leftarrow>[0..<?n]. ?g (cs ! i) (cs ! j))"
  proof (intro sum_list_cong_upt)
    fix i j assume "i < ?n" "j < ?n"
    then show "eff ?t cs i j k = ?g (cs ! i) (cs ! j)"
      using index_eq_name [OF d k] by (simp add: eff_def)
  qed
  also have "\<dots> = (\<Sum>a\<leftarrow>cs. \<Sum>j\<leftarrow>[0..<?n]. ?g a (cs ! j))"
    by (rule sum_list_nth_upt [where xs = cs and f = "\<lambda>a. \<Sum>j\<leftarrow>[0..<?n]. ?g a (cs ! j)"])
  also have "\<dots> = (\<Sum>a\<leftarrow>cs. \<Sum>b\<leftarrow>cs. ?g a b)"
    by (rule arg_cong [where f = sum_list], rule map_cong [OF refl])
      (rule sum_list_nth_upt [where xs = cs])
  finally show ?thesis using False by (simp add: net_def Let_def)
qed

lemma clear_resource_map:
  assumes "distinct (map name cs)"
  shows "clear_resource r cs = map (\<lambda>c. adjust r (net r cs (name c)) c) cs"
  by (rule nth_equalityI) (simp_all add: clear_resource_def net_idx_net [OF assms])

lemma net_view: "net r (map (view r) cs) n = net r cs n"
  by (simp add: net_def tally_view o_def Let_def cong: if_cong)

lemma same_view_net: "map (view r) cs' = map (view r) cs \<Longrightarrow> net r cs' n = net r cs n"
  by (metis net_view)

lemma names_clear_resource [simp]: "map name (clear_resource r cs) = map name cs"
  by (rule nth_equalityI) (simp_all add: clear_resource_def)

lemma fold_adjust_name [simp]: "name (fold (\<lambda>r. adjust r (g r)) rs c) = name c"
  by (induction rs arbitrary: c) simp_all

lemma fold_clear_map:
  assumes "distinct rs" and "distinct (map name cs)"
  shows "fold clear_resource rs cs =
     map (\<lambda>c. fold (\<lambda>r. adjust r (net r cs (name c))) rs c) cs"
  using assms
proof (induction rs arbitrary: cs)
  case Nil
  then show ?case by simp
next
  case (Cons r rs)
  let ?S = "clear_resource r cs"
  have S: "?S = map (\<lambda>c. adjust r (net r cs (name c)) c) cs"
    by (rule clear_resource_map [OF Cons.prems(2)])
  have nets: "\<And>r' n. r' \<in> set rs \<Longrightarrow> net r' ?S n = net r' cs n"
    using Cons.prems(1) by (intro same_view_net map_view_clear_resource) auto
  have "fold clear_resource rs ?S =
      map (\<lambda>c. fold (\<lambda>r'. adjust r' (net r' ?S (name c))) rs c) ?S"
    using Cons.prems by (intro Cons.IH) simp_all
  also have "\<dots> = map (\<lambda>c. fold (\<lambda>r'. adjust r' (net r' cs (name c))) rs c) ?S"
    by (intro map_cong refl fold_cong) (simp_all add: nets)
  also have "\<dots> = map (\<lambda>c. fold (\<lambda>r'. adjust r' (net r' cs (name c))) rs
      (adjust r (net r cs (name c)) c)) cs"
    by (simp add: S o_def)
  finally show ?case by simp
qed










lemma resolve_trade_cleared:
  assumes "valid_world cs"
  shows "resolve_trade \<lparr>countries = cs\<rparr> = Inr \<lparr>countries = map (cleared cs) cs\<rparr>"
proof -
  have d: "distinct (map name cs)" and k: "same_kinds cs"
    using assms by (simp_all add: valid_world_def)
  have "fold clear_resource (kinds cs) cs = map (cleared cs) cs"
    using fold_clear_map [OF same_kinds_distinct [OF k] d] by (simp add: cleared_def)
  then show ?thesis using resolve_trade_fold [of "\<lparr>countries = cs\<rparr>"] k by simp
qed


text \<open>
  Unique names are needed: the dictionaries of the first loop are keyed by name, and of
  two entities with the same name the later one overwrites the entries of the earlier
  one. With \<open>scenario_A\<close> before its namesake nothing is traded; with the namesake
  first, both of them export.
\<close>

lemma duplicate_names_order_matters:
  "trade_resource ''oil'' [scenario_A, twin_A, scenario_B] = Inr [scenario_A, twin_A, scenario_B]"
  "trade_resource ''oil'' [twin_A, scenario_A, scenario_B] =
     Inr [twin_A\<lparr>resources := [(''oil'', - 2), (''minerals'', 0), (''agriculture'', 0)]\<rparr>,
          scenario_A\<lparr>resources := [(''oil'', 98), (''minerals'', 0), (''agriculture'', 0)]\<rparr>,
          scenario_B\<lparr>resources := [(''oil'', 3.6), (''minerals'', 0), (''agriculture'', 0)]\<rparr>]"
  by (simp_all add: trade_defs twin_A_def scenario_A_def scenario_B_def Country_init_def)

subsection \<open>Stocks after trade clearing\<close>

text \<open>
  With unique names the dictionaries of the first loop hold, under the name of an
  entity, its own demand and supply. An exporter ships its share of the supply times the
  whole demand that is not blocked, so at most its surplus when the total demand is
  not above the total supply: then no stock becomes negative. (When the demand is above
  the supply it ships more than its surplus, as in the world of \<open>short_A\<close> and
  \<open>short_B\<close>.)
\<close>

lemma tally_country_short:
  "tally_country r c t =
     t\<lparr>demands := (demands t)(name c \<mapsto> shortfall r c),
       supplies := (supplies t)(name c \<mapsto> surplus r c),
       total_demand := total_demand t + shortfall r c,
       total_supply := total_supply t + surplus r c\<rparr>"
  by (simp add: tally_country_stock shortfall_def surplus_def)

lemma fold_tally_totals:
  "total_demand (fold (tally_country r) cs t) = total_demand t + (\<Sum>c\<leftarrow>cs. shortfall r c)"
  "total_supply (fold (tally_country r) cs t) = total_supply t + (\<Sum>c\<leftarrow>cs. surplus r c)"
  by (induction cs arbitrary: t) (simp_all add: tally_country_short)

lemma tally_totals:
  "total_demand (tally r cs) = (\<Sum>c\<leftarrow>cs. shortfall r c)"
  "total_supply (tally r cs) = (\<Sum>c\<leftarrow>cs. surplus r c)"
  by (simp_all add: tally_def fold_tally_totals)

lemma fold_tally_untouched:
  "n \<notin> name ` set cs \<Longrightarrow>
   demands (fold (tally_country r) cs t) n = demands t n
   \<and> supplies (fold (tally_country r) cs t) n = supplies t n"
  by (induction cs arbitrary: t) (simp_all add: tally_country_short)

lemma fold_tally_lookup:
  "distinct (map name cs) \<Longrightarrow> c \<in> set cs \<Longrightarrow>
   demands (fold (tally_country r) cs t) (name c) = Some (shortfall r c)
   \<and> supplies (fold (tally_country r) cs t) (name c) = Some (surplus r c)"
proof (induction cs arbitrary: t)
  case Nil
  then show ?case by simp
next
  case (Cons a cs)
  show ?case
  proof (cases "c = a")
    case True
    have "name a \<notin> name ` set cs" using Cons.prems(1) by simp
    from fold_tally_untouched [OF this, of r "tally_country r a t"]
    have "demands (fold (tally_country r) cs (tally_country r a t)) (name a) =
        demands (tally_country r a t) (name a)"
      and "supplies (fold (tally_country r) cs (tally_country r a t)) (name a) =
        supplies (tally_country r a t) (name a)"
      by simp_all
    moreover have "demands (tally_country r a t) (name a) = Some (shortfall r a)"
      and "supplies (tally_country r a t) (name a) = Some (surplus r a)"
      by (simp_all add: tally_country_short)
    ultimately show ?thesis using True by simp
  next
    case False
    then show ?thesis using Cons by simp
  qed
qed

lemma tally_lookup:
  assumes "distinct (map name cs)" and "c \<in> set cs"
  shows "demand_of (tally r cs) c = shortfall r c" and "supply_of (tally r cs) c = surplus r c"
  using fold_tally_lookup [OF assms, of r]
  by (simp_all add: tally_def demand_of_def supply_of_def)

lemma shortfall_nonneg: "0 \<le> shortfall r c" and surplus_nonneg: "0 \<le> surplus r c"
  by (simp_all add: shortfall_def surplus_def)

lemma sum_list_indicator:
  assumes "distinct (map name cs)" and "c \<in> set cs"
  shows "(\<Sum>b\<leftarrow>cs. if name c = name b then f b else (0 :: real)) = f c"
  using assms
proof (induction cs)
  case Nil
  then show ?case by simp
next
  case (Cons a cs)
  show ?case
  proof (cases "c = a")
    case True
    have "\<And>b. b \<in> set cs \<Longrightarrow> name a \<noteq> name b" using Cons.prems(1) by auto
    then have "(\<Sum>b\<leftarrow>cs. if name a = name b then f b else 0) = (\<Sum>b\<leftarrow>cs. 0)"
      by (intro arg_cong [where f = sum_list] map_cong refl) simp
    then show ?thesis using True by simp
  next
    case False
    then have "c \<in> set cs" using Cons.prems(2) by simp
    moreover have "name a \<notin> name ` set cs" using Cons.prems(1) by simp
    then have "name c \<noteq> name a" using \<open>c \<in> set cs\<close> by (metis imageI)
    ultimately show ?thesis using Cons by simp
  qed
qed

lemma net_closed:
  assumes d: "distinct (map name cs)" and c: "c \<in> set cs"
    and g: "\<not> (total_supply (tally r cs) \<le> 0 \<or> total_demand (tally r cs) \<le> 0)"
  shows "net r cs (name c) =
     (\<Sum>b\<leftarrow>cs. pair_after_tariff (tally r cs) c b) - (\<Sum>a\<leftarrow>cs. pair_volume (tally r cs) a c)"
proof -
  let ?t = "tally r cs"
  have "net r cs (name c) =
      (\<Sum>a\<leftarrow>cs. (\<Sum>b\<leftarrow>cs. if name c = name b then - pair_volume ?t a b else 0)
        + (\<Sum>b\<leftarrow>cs. if name c = name a then pair_after_tariff ?t a b else 0))"
    using g by (simp add: net_def Let_def sum_list_addf)
  also have "\<dots> = (\<Sum>a\<leftarrow>cs. - pair_volume ?t a c
        + (if name c = name a then (\<Sum>b\<leftarrow>cs. pair_after_tariff ?t a b) else 0))"
    by (intro arg_cong [where f = sum_list] map_cong refl)
      (simp add: sum_list_indicator [OF d c])
  also have "\<dots> = (\<Sum>a\<leftarrow>cs. - pair_volume ?t a c)
        + (\<Sum>a\<leftarrow>cs. if name c = name a then (\<Sum>b\<leftarrow>cs. pair_after_tariff ?t a b) else 0)"
    by (rule sum_list_addf)
  also have "\<dots> = (\<Sum>a\<leftarrow>cs. - pair_volume ?t a c) + (\<Sum>b\<leftarrow>cs. pair_after_tariff ?t c b)"
    by (simp add: sum_list_indicator [OF d c])
  finally show ?thesis by (simp add: uminus_sum_list_map o_def)
qed

lemma pair_volume_nonneg: "0 < total_supply t \<Longrightarrow> 0 \<le> pair_volume t a b"
  by (simp add: pair_volume_def)

lemma pair_volume_le:
  assumes d: "distinct (map name cs)" and a: "a \<in> set cs" and c: "c \<in> set cs"
    and ts: "0 < total_supply (tally r cs)"
  shows "pair_volume (tally r cs) a c \<le> surplus r c / total_supply (tally r cs) * shortfall r a"
proof -
  have "0 \<le> surplus r c / total_supply (tally r cs) * shortfall r a"
    using ts by (simp add: shortfall_nonneg surplus_nonneg)
  then show ?thesis
    by (simp add: pair_volume_def tally_lookup [OF d a] tally_lookup [OF d c])
qed

lemma exports_le_surplus:
  assumes d: "distinct (map name cs)" and c: "c \<in> set cs"
    and ts: "0 < total_supply (tally r cs)"
    and le: "total_demand (tally r cs) \<le> total_supply (tally r cs)"
  shows "(\<Sum>a\<leftarrow>cs. pair_volume (tally r cs) a c) \<le> surplus r c"
proof -
  let ?t = "tally r cs"
  have "(\<Sum>a\<leftarrow>cs. pair_volume ?t a c) \<le> (\<Sum>a\<leftarrow>cs. surplus r c / total_supply ?t * shortfall r a)"
    by (rule sum_list_mono) (rule pair_volume_le [OF d _ c ts])
  also have "\<dots> = surplus r c / total_supply ?t * (\<Sum>a\<leftarrow>cs. shortfall r a)"
    by (rule sum_list_const_mult)
  also have "\<dots> = surplus r c / total_supply ?t * total_demand ?t"
    by (simp only: tally_totals)
  also have "\<dots> = surplus r c * (total_demand ?t / total_supply ?t)"
    by simp
  also have "\<dots> \<le> surplus r c * 1"
    using ts le by (intro mult_left_mono surplus_nonneg) simp
  finally show ?thesis by simp
qed

lemma stock_minus_surplus_nonneg:
  "0 \<le> stock r c \<Longrightarrow> 0 \<le> population c \<Longrightarrow> 0 \<le> stock r c - surplus r c"
  by (simp add: surplus_def)

lemma stock_plus_net_nonneg:
  assumes d: "distinct (map name cs)" and c: "c \<in> set cs"
    and s: "0 \<le> stock r c" and p: "0 \<le> population c" and tr: "tariff_rate c \<le> 1"
    and le: "total_demand (tally r cs) \<le> total_supply (tally r cs)"
  shows "0 \<le> stock r c + net r cs (name c)"
proof (cases "total_supply (tally r cs) \<le> 0 \<or> total_demand (tally r cs) \<le> 0")
  case True
  then show ?thesis using s by (auto simp: net_def Let_def)
next
  case False
  let ?t = "tally r cs"
  have ts: "0 < total_supply ?t" using False by simp
  have "0 \<le> (\<Sum>b\<leftarrow>cs. pair_after_tariff ?t c b)"
    using tr by (intro sum_list_nonneg)
      (auto simp: pair_after_tariff_def intro!: mult_nonneg_nonneg pair_volume_nonneg [OF ts])
  moreover have "(\<Sum>a\<leftarrow>cs. pair_volume ?t a c) \<le> surplus r c"
    by (rule exports_le_surplus [OF d c ts le])
  moreover have "0 \<le> stock r c - surplus r c"
    by (rule stock_minus_surplus_nonneg [OF s p])
  ultimately show ?thesis by (simp add: net_closed [OF d c False])
qed

lemma keys_fold_adjust [simp]:
  "map fst (resources (fold (\<lambda>r. adjust r (g r)) rs c)) = map fst (resources c)"
  by (induction rs arbitrary: c) simp_all

lemma stock_fold_adjust_other:
  "r \<notin> set rs \<Longrightarrow> stock r (fold (\<lambda>r'. adjust r' (g r')) rs c) = stock r c"
  by (induction rs arbitrary: c) (simp_all add: stock_adjust_other)

lemma stock_fold_adjust:
  "distinct rs \<Longrightarrow> r \<in> set rs \<Longrightarrow> r \<in> fst ` set (resources c) \<Longrightarrow>
   stock r (fold (\<lambda>r'. adjust r' (g r')) rs c) = stock r c + g r"
proof (induction rs arbitrary: c)
  case Nil
  then show ?case by simp
next
  case (Cons r1 rs)
  show ?case
  proof (cases "r = r1")
    case True
    then have "r \<notin> set rs" using Cons.prems(1) by simp
    then show ?thesis
      using True Cons.prems(3) by (simp add: stock_fold_adjust_other stock_adjust_same)
  next
    case False
    then have "stock r (fold (\<lambda>r'. adjust r' (g r')) rs (adjust r1 (g r1) c)) =
        stock r (adjust r1 (g r1) c) + g r"
      using Cons.prems by (intro Cons.IH) simp_all
    then show ?thesis using False by (simp add: stock_adjust_other)
  qed
qed

lemma stock_cleared:
  assumes "same_kinds cs" and "c \<in> set cs" and "r \<in> set (kinds cs)"
  shows "stock r (cleared cs c) = stock r c + net r cs (name c)"
proof -
  have "r \<in> fst ` set (resources c)"
    using assms by (auto simp: same_kinds_def)
  then show ?thesis
    unfolding cleared_def
    by (rule stock_fold_adjust [OF same_kinds_distinct [OF assms(1)] assms(3)])
qed

lemma entry_is_stock:
  "distinct (map fst (resources c)) \<Longrightarrow> (key, v) \<in> set (resources c) \<Longrightarrow> v = stock key c"
  by (simp add: stock_def)

lemma resolve_trade_keeps_stocks_nonneg:
  assumes v: "valid_world cs"
    and pt: "\<forall>c \<in> set cs. 0 \<le> population c \<and> tariff_rate c \<le> 1"
    and nn: "\<forall>c \<in> set cs. \<forall>(key, v) \<in> set (resources c). 0 \<le> v"
    and le: "\<forall>r \<in> set (kinds cs). total_demand (tally r cs) \<le> total_supply (tally r cs)"
  shows "\<exists>cs'. resolve_trade \<lparr>countries = cs\<rparr> = Inr \<lparr>countries = cs'\<rparr>
     \<and> (\<forall>c \<in> set cs'. \<forall>(key, v) \<in> set (resources c). 0 \<le> v)"
proof -
  have d: "distinct (map name cs)" and k: "same_kinds cs"
    using v by (simp_all add: valid_world_def)
  have "\<forall>(key, x) \<in> set (resources (cleared cs c)). 0 \<le> x" if c: "c \<in> set cs" for c
  proof (clarify)
    fix key x assume e: "(key, x) \<in> set (resources (cleared cs c))"
    have keys: "map fst (resources (cleared cs c)) = map fst (resources c)"
      by (simp add: cleared_def)
    have dk: "distinct (map fst (resources c))" and sk: "set (map fst (resources c)) = set (kinds cs)"
      using k c by (simp_all add: same_kinds_def)
    have "key \<in> set (map fst (resources (cleared cs c)))" using e by force
    then have kk: "key \<in> set (kinds cs)" and kc: "key \<in> fst ` set (resources c)"
      using keys sk by auto
    then obtain x0 where "(key, x0) \<in> set (resources c)" by auto
    then have "0 \<le> stock key c" using nn c entry_is_stock [OF dk] by fastforce
    then have "0 \<le> stock key c + net key cs (name c)"
      using pt le c kk by (intro stock_plus_net_nonneg [OF d c]) auto
    moreover have "x = stock key (cleared cs c)"
      using e dk keys by (intro entry_is_stock) simp_all
    ultimately show "0 \<le> x" by (simp add: stock_cleared [OF k c kk])
  qed
  then show ?thesis using resolve_trade_cleared [OF v] by auto
qed

subsection \<open>Exact and double arithmetic\<close>









lemmas fp_defs = trade_resource_fp_def tally_fp_def tally_country_fp_def trade_importer_fp_def
  trade_pair_fp_def stock_add_fp_def dict_add_fp_def

lemmas rd_defs = round_double_def scale_down.simps scale_up.simps round_even_def pow2_def










text \<open>With exact arithmetic \<open>N0\<close> ends with 2 oil in both orders.\<close>

lemma three_world_exact:
  "resolve_trade \<lparr>countries = three_world\<rparr> =
   Inr \<lparr>countries =
     [(entity ''N0'' 1 10)\<lparr>resources := [(''oil'', 2), (''minerals'', 0), (''agriculture'', 0)]\<rparr>,
      (entity ''N1'' 7 10)\<lparr>resources := [(''oil'', 20 / 3), (''minerals'', 0), (''agriculture'', 0)]\<rparr>,
      (entity ''N2'' 12 10)\<lparr>resources := [(''oil'', 34 / 3), (''minerals'', 0), (''agriculture'', 0)]\<rparr>]\<rparr>"
  "resolve_trade \<lparr>countries = [entity ''N0'' 1 10, entity ''N2'' 12 10, entity ''N1'' 7 10]\<rparr> =
   Inr \<lparr>countries =
     [(entity ''N0'' 1 10)\<lparr>resources := [(''oil'', 2), (''minerals'', 0), (''agriculture'', 0)]\<rparr>,
      (entity ''N2'' 12 10)\<lparr>resources := [(''oil'', 34 / 3), (''minerals'', 0), (''agriculture'', 0)]\<rparr>,
      (entity ''N1'' 7 10)\<lparr>resources := [(''oil'', 20 / 3), (''minerals'', 0), (''agriculture'', 0)]\<rparr>]\<rparr>"
  by (simp_all add: three_world_def resolve_trade_def trade_defs entity_def Country_init_def)

text \<open>
  At the worlds of the two scenarios above, with the tariff 0.1 as a double, double
  arithmetic gives what exact arithmetic gives, up to the rounding of 1.8.
\<close>

lemma double_model_oil_scenario:
  "trade_resource_fp round_double ''oil''
     [scenario_A\<lparr>tariff_rate := round_double 0.1\<rparr>,
      scenario_B\<lparr>tariff_rate := round_double 0.1\<rparr>] =
   Inr [scenario_A\<lparr>tariff_rate := round_double 0.1,
          resources := [(''oil'', 98), (''minerals'', 0), (''agriculture'', 0)]\<rparr>,
        scenario_B\<lparr>tariff_rate := round_double 0.1,
          resources := [(''oil'', round_double 1.8), (''minerals'', 0), (''agriculture'', 0)]\<rparr>]"
  by (simp add: fp_defs scenario_A_def scenario_B_def Country_init_def rd_defs)

lemma double_model_short_world:
  "resolve_trade_fp round_double
     \<lparr>countries = [short_A\<lparr>tariff_rate := round_double 0.1\<rparr>,
                   short_B\<lparr>tariff_rate := round_double 0.1\<rparr>]\<rparr> =
   Inr \<lparr>countries =
     [short_A\<lparr>tariff_rate := round_double 0.1,
        resources := [(''oil'', - 17), (''minerals'', 0), (''agriculture'', 0)]\<rparr>,
      short_B\<lparr>tariff_rate := round_double 0.1,
        resources := [(''oil'', 18), (''minerals'', 0), (''agriculture'', 0)]\<rparr>]\<rparr>"
  by (simp add: resolve_trade_fp_def fp_defs short_A_def short_B_def Country_init_def rd_defs)

end
